theory Spec2Isabelle
  imports Complex_Main "HOL-Library.Char_ord" "HOL-Library.List_Lexorder"
begin

section \<open>Python strings\<close>

text \<open>
  A Python \<open>str\<close> is modelled as a \<open>string\<close> whose characters are the code points
  below 256 (the Latin-1 range), so that \<open>length\<close> counts code points as Python does.
  Code points from 256 on are outside the model.
\<close>

text \<open>
  \<open>str.lower()\<close> on one code point below 256: the ASCII capitals and the Latin-1
  capitals 192..222 (without the multiplication sign 215) move up by 32.
\<close>

definition py_lower_char :: "char \<Rightarrow> char" where
  "py_lower_char c =
     (let n = (of_char c :: nat) in
      if (65 \<le> n \<and> n \<le> 90) \<or> (192 \<le> n \<and> n \<le> 222 \<and> n \<noteq> 215)
      then char_of (n + 32) else c)"

definition lower :: "string \<Rightarrow> string" where
  "lower s = map py_lower_char s"

text \<open>\<open>s.startswith(p)\<close> and \<open>s.endswith(p)\<close>.\<close>

fun startswith :: "string \<Rightarrow> string \<Rightarrow> bool" where
  "startswith s [] = True"
| "startswith [] (p # ps) = False"
| "startswith (c # cs) (p # ps) = (c = p \<and> startswith cs ps)"

definition endswith :: "string \<Rightarrow> string \<Rightarrow> bool" where
  "endswith s p = startswith (rev s) (rev p)"

text \<open>\<open>sub in s\<close> on strings: \<open>sub\<close> occurs in \<open>s\<close> as a contiguous substring.\<close>

fun py_in :: "string \<Rightarrow> string \<Rightarrow> bool" where
  "py_in sub [] = (sub = [])"
| "py_in sub (c # cs) = (startswith (c # cs) sub \<or> py_in sub cs)"

text \<open>\<open>str(n)\<close> for a Python \<open>int\<close>: decimal digits, with a leading minus sign.\<close>

definition digit_char :: "nat \<Rightarrow> char" where
  "digit_char d = ''0123456789'' ! (d mod 10)"

fun str_nat :: "nat \<Rightarrow> string" where
  "str_nat n = (if n < 10 then [digit_char n] else str_nat (n div 10) @ [digit_char (n mod 10)])"

declare str_nat.simps [simp del]

definition str_int :: "int \<Rightarrow> string" where
  "str_int i = (if i < 0 then CHR ''-'' # str_nat (nat (- i)) else str_nat (nat i))"

text \<open>
  A Python \<open>dict\<close> keeps insertion order: it is an association list with distinct keys.
  \<open>d[k] = v\<close> overwrites the value of a key that is present, where it stands, and
  appends a new key at the end.
\<close>

fun dict_set :: "'k \<Rightarrow> 'v \<Rightarrow> ('k \<times> 'v) list \<Rightarrow> ('k \<times> 'v) list" where
  "dict_set k v [] = [(k, v)]"
| "dict_set k v ((k', v') # rest) =
     (if k' = k then (k', v) # rest else (k', v') # dict_set k v rest)"

section \<open>analyze.py\<close>

subsection \<open>normalize\<close>

text \<open>\<open>re.sub(r'[^0-9a-z]', '', name.lower())\<close>\<close>

definition is_0_9a_z :: "char \<Rightarrow> bool" where
  "is_0_9a_z c =
     (let n = (of_char c :: nat) in (48 \<le> n \<and> n \<le> 57) \<or> (97 \<le> n \<and> n \<le> 122))"

definition normalize :: "string \<Rightarrow> string" where
  "normalize name = filter is_0_9a_z (lower name)"

subsection \<open>load_schemas_from_file: the relationships read from the path templates\<close>

text \<open>
  \<open>re.match(r'^/([^/]+)/\{[^}]+\}/([^:/]+):', path_str)\<close>, returning the two groups.
  Each repeated class is followed by a character outside the class, so the greedy run is
  the longest one and no shorter run can match.
\<close>

definition match_path :: "string \<Rightarrow> (string \<times> string) option" where
  "match_path path_str =
     (case path_str of
        [] \<Rightarrow> None
      | c0 # r0 \<Rightarrow>
          if c0 \<noteq> CHR ''/'' then None
          else
            let source = takeWhile (\<lambda>c. c \<noteq> CHR ''/'') r0;
                r1 = dropWhile (\<lambda>c. c \<noteq> CHR ''/'') r0
            in if source = [] then None
               else (case r1 of
                       c1 # c2 # r2 \<Rightarrow>
                         if c1 \<noteq> CHR ''/'' \<or> c2 \<noteq> CHR 0x7B then None
                         else
                           let param = takeWhile (\<lambda>c. c \<noteq> CHR 0x7D) r2;
                               r3 = dropWhile (\<lambda>c. c \<noteq> CHR 0x7D) r2
                           in if param = [] then None
                              else (case r3 of
                                      c3 # c4 # r4 \<Rightarrow>
                                        if c3 \<noteq> CHR 0x7D \<or> c4 \<noteq> CHR ''/'' then None
                                        else
                                          let target = takeWhile (\<lambda>c. c \<noteq> CHR '':'' \<and> c \<noteq> CHR ''/'') r4;
                                              r5 = dropWhile (\<lambda>c. c \<noteq> CHR '':'' \<and> c \<noteq> CHR ''/'') r4
                                          in if target = [] then None
                                             else (case r5 of
                                                     c5 # _ \<Rightarrow>
                                                       if c5 = CHR '':'' then Some (source, target)
                                                       else None
                                                   | [] \<Rightarrow> None)
                                    | _ \<Rightarrow> None)
                     | _ \<Rightarrow> None))"

text \<open>
  \<open>relationships: Dict[str, Set[str]]\<close>: the keys in insertion order, each set as the
  list of its elements without repetition.
  \<^verbatim>\<open>
    if source not in relationships:
        relationships[source] = set()
    relationships[source].add(target)
  \<close>
\<close>

fun add_relationship ::
  "string \<Rightarrow> string \<Rightarrow> (string \<times> string list) list \<Rightarrow> (string \<times> string list) list" where
  "add_relationship source target [] = [(source, [target])]"
| "add_relationship source target ((k, ts) # rest) =
     (if k = source then (k, if target \<in> set ts then ts else ts @ [target]) # rest
      else (k, ts) # add_relationship source target rest)"

text \<open>The loop over \<open>paths.items()\<close>; only the keys are read.\<close>

fun extract_relationships ::
  "string list \<Rightarrow> (string \<times> string list) list \<Rightarrow> (string \<times> string list) list" where
  "extract_relationships [] relationships = relationships"
| "extract_relationships (path_str # rest) relationships =
     extract_relationships rest
       (case match_path path_str of
          None \<Rightarrow> relationships
        | Some (source, target) \<Rightarrow> add_relationship source target relationships)"

definition path_relationships :: "string list \<Rightarrow> (string \<times> string list) list" where
  "path_relationships paths = extract_relationships paths []"

subsection \<open>find_candidate_fks\<close>

text \<open>
  A schema definition holds its \<open>properties\<close> (absent or null: \<open>None\<close>), each property
  its \<open>type\<close> (absent: \<open>None\<close>).
\<close>

type_synonym prop_def = "string option"
type_synonym schema_def = "(string \<times> prop_def) list option"

record fk_candidate =
  cand_from :: string
  cand_field :: string
  to_guess :: "string option"
  cand_type :: "string option"
  confirmed_by_api :: bool
  cand_source :: string

text \<open>\<open>norm_to_schema = {normalize(k): k for k in schemas.keys()}\<close>\<close>

fun norm_to_schema_build :: "string list \<Rightarrow> (string \<times> string) list \<Rightarrow> (string \<times> string) list" where
  "norm_to_schema_build [] d = d"
| "norm_to_schema_build (k # ks) d = norm_to_schema_build ks (dict_set (normalize k) k d)"

definition norm_to_schema :: "(string \<times> schema_def) list \<Rightarrow> (string \<times> string) list" where
  "norm_to_schema schemas = norm_to_schema_build (map fst schemas) []"

text \<open>
  \<^verbatim>\<open>
    for candidate_norm, cand in norm_to_schema.items():
        if candidate_norm in prop_norm or prop_norm in candidate_norm:
            matched = cand
            break
  \<close>
\<close>

fun direct_match :: "(string \<times> string) list \<Rightarrow> string \<Rightarrow> string option" where
  "direct_match [] prop_norm = None"
| "direct_match ((candidate_norm, cand) # rest) prop_norm =
     (if py_in candidate_norm prop_norm \<or> py_in prop_norm candidate_norm then Some cand
      else direct_match rest prop_norm)"

text \<open>
  \<open>re.sub(r'(_id|_Id|Id)$', '', prop, flags=re.IGNORECASE)\<close>. Without \<open>re.MULTILINE\<close>,
  \<open>$\<close> matches at the end of the string and before a newline that ends the string; the
  leftmost match is replaced, so \<open>_id\<close> is tried before \<open>id\<close>.
\<close>

definition strip_id_suffix :: "string \<Rightarrow> string" where
  "strip_id_suffix prop =
     (let nl = (if endswith prop [CHR 0x0A] then [CHR 0x0A] else []);
          body = take (length prop - length nl) prop
      in if endswith (lower body) ''_id'' then take (length body - 3) body @ nl
         else if endswith (lower body) ''id'' then take (length body - 2) body @ nl
         else prop)"

text \<open>\<open>if not matched\<close>: \<open>matched\<close> is \<open>None\<close> or the empty string.\<close>

definition falsy :: "string option \<Rightarrow> bool" where
  "falsy matched = (matched = None \<or> matched = Some [])"

definition heuristic_match :: "(string \<times> string) list \<Rightarrow> string \<Rightarrow> string option \<Rightarrow> string option" where
  "heuristic_match nts prop matched =
     (let clean = strip_id_suffix prop;
          clean_norm = normalize clean
      in case map_of nts clean_norm of
           Some s \<Rightarrow> Some s
         | None \<Rightarrow>
             if endswith clean ''s'' then
               (case map_of nts (normalize (butlast clean)) of
                  Some s \<Rightarrow> Some s
                | None \<Rightarrow> matched)
             else
               (case map_of nts (normalize (clean @ ''s'')) of
                  Some s \<Rightarrow> Some s
                | None \<Rightarrow> matched))"

text \<open>
  \<^verbatim>\<open>
    for rel in related:
        if normalize(rel) in prop_norm or prop_norm in normalize(rel):
            matched = rel
            confirmed_by_api = True
            break
  \<close>
  \<open>related\<close> is a Python set: the list is its elements in the order the run iterates them.
\<close>

fun api_match :: "string list \<Rightarrow> string \<Rightarrow> string option" where
  "api_match [] prop_norm = None"
| "api_match (rel # rest) prop_norm =
     (if py_in (normalize rel) prop_norm \<or> py_in prop_norm (normalize rel) then Some rel
      else api_match rest prop_norm)"

text \<open>The record appended for a property whose lower-cased name contains \<open>id\<close>.\<close>

definition named_candidate ::
  "(string \<times> string) list \<Rightarrow> (string \<times> string list) list \<Rightarrow> string \<Rightarrow> string \<Rightarrow> prop_def
     \<Rightarrow> fk_candidate" where
  "named_candidate nts api_relationships sname prop pdef =
     (let prop_norm = normalize prop;
          matched0 = direct_match nts prop_norm;
          matched1 = (if falsy matched0 then heuristic_match nts prop matched0 else matched0);
          api = (case map_of api_relationships sname of
                   None \<Rightarrow> None
                 | Some related \<Rightarrow> api_match related prop_norm);
          matched = (case api of None \<Rightarrow> matched1 | Some rel \<Rightarrow> Some rel);
          confirmed = (api \<noteq> None)
      in \<lparr> cand_from = sname, cand_field = prop, to_guess = matched, cand_type = pdef,
           confirmed_by_api = confirmed,
           cand_source = (if confirmed then ''api_path'' else ''field_name'') \<rparr>)"

fun props_loop ::
  "(string \<times> string) list \<Rightarrow> (string \<times> string list) list \<Rightarrow> string
     \<Rightarrow> (string \<times> prop_def) list \<Rightarrow> fk_candidate list \<Rightarrow> fk_candidate list" where
  "props_loop nts api_relationships sname [] results = results"
| "props_loop nts api_relationships sname ((prop, pdef) # rest) results =
     props_loop nts api_relationships sname rest
       (if py_in ''id'' (lower prop)
        then results @ [named_candidate nts api_relationships sname prop pdef]
        else results)"

text \<open>
  \<^verbatim>\<open>
    for related in api_relationships[sname]:
        found = False
        for fk in results:
            if fk['from'] == sname and fk['to_guess'] == related:
                found = True
                break
        if not found:
            results.append({... 'field': f'<relation to {related}>' ...})
  \<close>
\<close>

definition path_only_candidate :: "string \<Rightarrow> string \<Rightarrow> fk_candidate" where
  "path_only_candidate sname related =
     \<lparr> cand_from = sname, cand_field = ''<relation to '' @ related @ ''>'',
       to_guess = Some related, cand_type = Some ''relation'',
       confirmed_by_api = True, cand_source = ''api_path_only'' \<rparr>"

fun relations_loop :: "string \<Rightarrow> string list \<Rightarrow> fk_candidate list \<Rightarrow> fk_candidate list" where
  "relations_loop sname [] results = results"
| "relations_loop sname (related # rest) results =
     relations_loop sname rest
       (if list_ex (\<lambda>fk. cand_from fk = sname \<and> to_guess fk = Some related) results
        then results
        else results @ [path_only_candidate sname related])"

fun schemas_loop ::
  "(string \<times> string) list \<Rightarrow> (string \<times> string list) list \<Rightarrow> (string \<times> schema_def) list
     \<Rightarrow> fk_candidate list \<Rightarrow> fk_candidate list" where
  "schemas_loop nts api_relationships [] results = results"
| "schemas_loop nts api_relationships ((sname, sdef) # rest) results =
     (let props = (case sdef of None \<Rightarrow> [] | Some ps \<Rightarrow> ps);
          results1 = props_loop nts api_relationships sname props results;
          results2 = (case map_of api_relationships sname of
                        None \<Rightarrow> results1
                      | Some related \<Rightarrow> relations_loop sname related results1)
      in schemas_loop nts api_relationships rest results2)"

definition find_candidate_fks ::
  "(string \<times> schema_def) list \<Rightarrow> (string \<times> string list) list \<Rightarrow> fk_candidate list" where
  "find_candidate_fks schemas api_relationships =
     schemas_loop (norm_to_schema schemas) api_relationships schemas []"

section \<open>JSON values as Python objects\<close>

text \<open>
  What \<open>json.load\<close> returns: \<open>None\<close>, \<open>bool\<close>, \<open>int\<close>, \<open>str\<close>, \<open>list\<close> and
  \<open>dict\<close> with string keys (an association list with distinct keys, in insertion order).
  JSON numbers are the integers here; numbers that Python reads as \<open>float\<close> are outside
  the model.
\<close>

datatype json =
    JNull
  | JBool bool
  | JInt int
  | JStr string
  | JList "json list"
  | JDict "(string \<times> json) list"

datatype error = NameError | AttributeError | TypeError

fun join :: "string \<Rightarrow> string list \<Rightarrow> string" where
  "join sep [] = []"
| "join sep [x] = x"
| "join sep (x # y # rest) = x @ sep @ join sep (y # rest)"

definition hex_digit :: "nat \<Rightarrow> char" where
  "hex_digit d = ''0123456789abcdef'' ! (d mod 16)"

definition hex2 :: "nat \<Rightarrow> string" where
  "hex2 n = [hex_digit (n div 16), hex_digit (n mod 16)]"

subsection \<open>\<open>repr\<close> and \<open>str\<close>\<close>

text \<open>
  \<open>repr\<close> of a \<open>str\<close>: single quotes, unless the string has a single quote and no double
  quote; the quote and the backslash are escaped, tab, newline and carriage return are
  written \<open>\t\<close>, \<open>\n\<close>, \<open>\r\<close>, and the other code points that are not printable (below
  32, 127 to 160, and 173) as \<open>\xhh\<close>.
\<close>

definition repr_quote :: "string \<Rightarrow> char" where
  "repr_quote s = (if CHR 0x27 \<in> set s \<and> CHR 0x22 \<notin> set s then CHR 0x22 else CHR 0x27)"

definition repr_char :: "char \<Rightarrow> char \<Rightarrow> string" where
  "repr_char quote c =
     (let n = (of_char c :: nat) in
      if c = quote \<or> c = CHR 0x5C then [CHR 0x5C, c]
      else if n = 9 then [CHR 0x5C, CHR ''t'']
      else if n = 10 then [CHR 0x5C, CHR ''n'']
      else if n = 13 then [CHR 0x5C, CHR ''r'']
      else if n < 32 \<or> n = 127 then [CHR 0x5C, CHR ''x''] @ hex2 n
      else if n < 127 then [c]
      else if n \<le> 160 \<or> n = 173 then [CHR 0x5C, CHR ''x''] @ hex2 n
      else [c])"

definition repr_str :: "string \<Rightarrow> string" where
  "repr_str s = (let q = repr_quote s in [q] @ concat (map (repr_char q) s) @ [q])"

fun py_repr :: "json \<Rightarrow> string"
  and py_repr_list :: "json list \<Rightarrow> string list"
  and py_repr_items :: "(string \<times> json) list \<Rightarrow> string list" where
  "py_repr JNull = ''None''"
| "py_repr (JBool b) = (if b then ''True'' else ''False'')"
| "py_repr (JInt i) = str_int i"
| "py_repr (JStr s) = repr_str s"
| "py_repr (JList xs) = ''['' @ join '', '' (py_repr_list xs) @ '']''"
| "py_repr (JDict d) = [CHR 0x7B] @ join '', '' (py_repr_items d) @ [CHR 0x7D]"
| "py_repr_list [] = []"
| "py_repr_list (x # xs) = py_repr x # py_repr_list xs"
| "py_repr_items [] = []"
| "py_repr_items ((k, v) # rest) = (repr_str k @ '': '' @ py_repr v) # py_repr_items rest"

text \<open>\<open>str(v)\<close>: a string is itself, every other value its \<open>repr\<close>.\<close>

definition py_str :: "json \<Rightarrow> string" where
  "py_str v = (case v of JStr s \<Rightarrow> s | _ \<Rightarrow> py_repr v)"

subsection \<open>\<open>json.dumps(v, sort_keys=True, default=str)\<close>\<close>

text \<open>
  A string is written between double quotes, with \<open>ensure_ascii\<close>: the quote, the
  backslash and the control characters with a short escape get it, every other code point
  outside 32..126 is written \<open>\u00hh\<close>.
\<close>

definition json_char :: "char \<Rightarrow> string" where
  "json_char c =
     (let n = (of_char c :: nat) in
      if n = 34 then [CHR 0x5C, CHR 0x22]
      else if n = 92 then [CHR 0x5C, CHR 0x5C]
      else if n = 8 then [CHR 0x5C, CHR ''b'']
      else if n = 12 then [CHR 0x5C, CHR ''f'']
      else if n = 10 then [CHR 0x5C, CHR ''n'']
      else if n = 13 then [CHR 0x5C, CHR ''r'']
      else if n = 9 then [CHR 0x5C, CHR ''t'']
      else if n < 32 \<or> 126 < n then [CHR 0x5C, CHR ''u'', CHR ''0'', CHR ''0''] @ hex2 n
      else [c])"

definition json_str :: "string \<Rightarrow> string" where
  "json_str s = [CHR 0x22] @ concat (map json_char s) @ [CHR 0x22]"

text \<open>
  The items of a dict are sorted by key (the keys of a dict are distinct, so the values
  are never compared), the separators are \<open>', '\<close> and \<open>': '\<close>. Every value here is
  serialisable, so \<open>default\<close> is never called and \<open>json.dumps\<close> does not raise.
\<close>

fun json_dumps :: "json \<Rightarrow> string"
  and json_dumps_list :: "json list \<Rightarrow> string list"
  and json_dumps_items :: "(string \<times> json) list \<Rightarrow> (string \<times> string) list" where
  "json_dumps JNull = ''null''"
| "json_dumps (JBool b) = (if b then ''true'' else ''false'')"
| "json_dumps (JInt i) = str_int i"
| "json_dumps (JStr s) = json_str s"
| "json_dumps (JList xs) = ''['' @ join '', '' (json_dumps_list xs) @ '']''"
| "json_dumps (JDict d) =
     [CHR 0x7B]
     @ join '', '' (map (\<lambda>(k, s). json_str k @ '': '' @ s) (sort_key fst (json_dumps_items d)))
     @ [CHR 0x7D]"
| "json_dumps_list [] = []"
| "json_dumps_list (x # xs) = json_dumps x # json_dumps_list xs"
| "json_dumps_items [] = []"
| "json_dumps_items ((k, v) # rest) = (k, json_dumps v) # json_dumps_items rest"

section \<open>fetch\_data.py\<close>

subsection \<open>stringify\<close>

text \<open>
  \<^verbatim>\<open>
    for k in ("id", "_id", "Id", "ID", "serial_number", "asset_rfid_tag", "rfid", "serial"):
        if k in v and v[k] is not None:
            return str(v[k])
  \<close>
\<close>

definition id_like_keys :: "string list" where
  "id_like_keys =
     [''id'', ''_id'', ''Id'', ''ID'', ''serial_number'', ''asset_rfid_tag'', ''rfid'', ''serial'']"

fun first_id_value :: "string list \<Rightarrow> (string \<times> json) list \<Rightarrow> json option" where
  "first_id_value [] d = None"
| "first_id_value (k # ks) d =
     (case map_of d k of
        None \<Rightarrow> first_id_value ks d
      | Some x \<Rightarrow> if x \<noteq> JNull then Some x else first_id_value ks d)"

definition stringify :: "json \<Rightarrow> string" where
  "stringify v =
     (case v of
        JNull \<Rightarrow> ''<null>''
      | JBool b \<Rightarrow> py_str v
      | JInt i \<Rightarrow> py_str v
      | JStr s \<Rightarrow> py_str v
      | JDict d \<Rightarrow>
          (case first_id_value id_like_keys d of
             Some x \<Rightarrow> py_str x
           | None \<Rightarrow> json_dumps v)
      | JList xs \<Rightarrow> json_dumps v)"

subsection \<open>normalize\_id\_field and collect\_ids\<close>

definition normalize_id_field :: "(string \<times> json) list \<Rightarrow> string option" where
  "normalize_id_field item =
     (case find (\<lambda>k. k \<in> set (map fst item)) [''id'', ''_id'', ''Id'', ''ID''] of
        Some k \<Rightarrow> Some k
      | None \<Rightarrow>
          find (\<lambda>k. endswith (lower k) ''_id'' \<or> endswith (lower k) ''id'') (map fst item))"

text \<open>
  A Python set of strings is the list of its elements without repetition, in the order of
  their first insertion; the order in which Python iterates a set is not modelled.
\<close>

definition set_add :: "'a \<Rightarrow> 'a list \<Rightarrow> 'a list" where
  "set_add x s = (if x \<in> set s then s else s @ [x])"

fun collect_ids_loop :: "json list \<Rightarrow> string list \<Rightarrow> string list" where
  "collect_ids_loop [] ids = ids"
| "collect_ids_loop (it # rest) ids =
     collect_ids_loop rest
       (case it of
          JDict d \<Rightarrow>
            (case normalize_id_field d of
               None \<Rightarrow> ids
             | Some k \<Rightarrow>
                 (case map_of d k of
                    None \<Rightarrow> ids
                  | Some x \<Rightarrow>
                      if k \<noteq> [] \<and> x \<noteq> JNull then set_add (stringify x) ids else ids))
        | _ \<Rightarrow> ids)"

definition collect_ids :: "json list \<Rightarrow> string list" where
  "collect_ids items = collect_ids_loop items []"

subsection \<open>find\_fk\_candidates\<close>

record overlap_candidate =
  from_collection :: string
  field :: string
  to_collection :: string
  matches :: nat
  sample_matches :: "string list"
  name_match :: bool

text \<open>\<open>sample = next((it for it in a_items if isinstance(it, dict)), None)\<close>\<close>

fun first_dict :: "json list \<Rightarrow> (string \<times> json) list option" where
  "first_dict [] = None"
| "first_dict (it # rest) = (case it of JDict d \<Rightarrow> Some d | _ \<Rightarrow> first_dict rest)"

text \<open>
  The names the loop over \<open>all_collections.items()\<close> leaves behind: its loop variables
  \<open>a_name\<close>, \<open>a_items\<close> (unbound while no iteration has run) and \<open>sample\<close> (unbound
  until an iteration gets past the first \<open>continue\<close>).
  \<^verbatim>\<open>
    for a_name, a_items in all_collections.items():
        if not a_items or not isinstance(a_items, list):
            continue
        sample = next((it for it in a_items if isinstance(it, dict)), None)
        if not sample:
            continue
    for field in sample.keys():
  \<close>
  The loop over the fields stands after this loop, not inside it: it runs once, on the
  bindings the last iteration left. Every collection is a list here, so the
  \<open>isinstance(a_items, list)\<close> test holds.
\<close>

datatype sample_binding = Unbound | Bound "(string \<times> json) list option"

record loop_vars =
  a_name :: string
  a_items :: "json list"

fun collections_loop ::
  "(string \<times> json list) list \<Rightarrow> loop_vars option \<times> sample_binding
     \<Rightarrow> loop_vars option \<times> sample_binding" where
  "collections_loop [] st = st"
| "collections_loop ((name, items) # rest) (vars, sample) =
     collections_loop rest
       (Some \<lparr> a_name = name, a_items = items \<rparr>,
        if items = [] then sample else Bound (first_dict items))"

text \<open>
  \<^verbatim>\<open>
    vals = set()
    for it in a_items:
        if not isinstance(it, dict):
            continue
        v = it.get(field)
        if v is not None:
            vals.add(stringify(v))
  \<close>
\<close>

fun field_vals :: "string \<Rightarrow> json list \<Rightarrow> string list \<Rightarrow> string list" where
  "field_vals fld [] vals = vals"
| "field_vals fld (it # rest) vals =
     field_vals fld rest
       (case it of
          JDict d \<Rightarrow>
            (case map_of d fld of
               None \<Rightarrow> vals
             | Some v \<Rightarrow> if v \<noteq> JNull then set_add (stringify v) vals else vals)
        | _ \<Rightarrow> vals)"

definition name_matches :: "string \<Rightarrow> string \<Rightarrow> bool" where
  "name_matches fld b_name =
     ((endswith (lower fld) ''_id'' \<and> startswith (lower fld) (take 3 (lower b_name)))
      \<or> (py_in (lower b_name) (lower fld) \<or> py_in (lower fld) (lower b_name)))"

text \<open>
  The loop over \<open>col_ids.items()\<close>. \<open>inter\<close> is the elements of \<open>vals\<close> that are in
  \<open>ids\<close>; \<open>list(inter)[:5]\<close> takes five of them in Python's iteration order of the set,
  here in the order of \<open>vals\<close>.
\<close>

fun targets_loop ::
  "string \<Rightarrow> string \<Rightarrow> string list \<Rightarrow> (string \<times> string list) list
     \<Rightarrow> overlap_candidate list \<Rightarrow> overlap_candidate list" where
  "targets_loop name fld vals [] results = results"
| "targets_loop name fld vals ((b_name, ids) # rest) results =
     targets_loop name fld vals rest
       (if ids = [] then results
        else
          let inter = filter (\<lambda>x. x \<in> set ids) vals
          in if inter \<noteq> [] then
               results @
                 [\<lparr> from_collection = name, field = fld, to_collection = b_name,
                    matches = length inter, sample_matches = take 5 inter,
                    name_match = name_matches fld b_name \<rparr>]
             else results)"

fun fields_loop ::
  "string \<Rightarrow> json list \<Rightarrow> (string \<times> string list) list \<Rightarrow> string list
     \<Rightarrow> overlap_candidate list \<Rightarrow> overlap_candidate list" where
  "fields_loop name items col_ids [] results = results"
| "fields_loop name items col_ids (fld # rest) results =
     fields_loop name items col_ids rest
       (if lower fld = ''id'' \<or> lower fld = ''_id'' then results
        else
          let vals = field_vals fld items []
          in if vals = [] then results
             else targets_loop name fld vals col_ids results)"

definition find_fk_candidates ::
  "(string \<times> json list) list \<Rightarrow> error + overlap_candidate list" where
  "find_fk_candidates all_collections =
     (let col_ids = map (\<lambda>(name, items). (name, collect_ids items)) all_collections
      in case collections_loop all_collections (None, Unbound) of
           (_, Unbound) \<Rightarrow> Inl NameError
         | (_, Bound None) \<Rightarrow> Inl AttributeError
         | (None, Bound (Some sample)) \<Rightarrow> Inl NameError
         | (Some vars, Bound (Some sample)) \<Rightarrow>
             Inr (fields_loop (a_name vars) (a_items vars) col_ids (map fst sample) []))"

section \<open>verify\_fks.py\<close>

text \<open>
  The sets of this script hold the values themselves. Python compares and hashes
  \<open>True\<close> as \<open>1\<close> and \<open>False\<close> as \<open>0\<close>; lists and dicts are unhashable, and adding one
  to a set raises \<open>TypeError\<close>. A set is the list of its elements, without two equal
  ones, in the order of first insertion.
\<close>

definition py_key :: "json \<Rightarrow> json" where
  "py_key v = (case v of JBool b \<Rightarrow> JInt (if b then 1 else 0) | _ \<Rightarrow> v)"

definition py_mem :: "json \<Rightarrow> json list \<Rightarrow> bool" where
  "py_mem v s = (py_key v \<in> set (map py_key s))"

definition hashable :: "json \<Rightarrow> bool" where
  "hashable v = (case v of JList xs \<Rightarrow> False | JDict d \<Rightarrow> False | _ \<Rightarrow> True)"

fun py_set :: "json list \<Rightarrow> json list \<Rightarrow> error + json list" where
  "py_set [] s = Inr s"
| "py_set (v # rest) s =
     (if \<not> hashable v then Inl TypeError
      else py_set rest (if py_mem v s then s else s @ [v]))"

text \<open>
  \<open>{item.get('id') for item in collection if isinstance(item, dict)
      and item.get('id') is not None}\<close>
\<close>

definition item_id :: "json \<Rightarrow> json option" where
  "item_id item =
     (case item of
        JDict d \<Rightarrow> (case map_of d ''id'' of Some v \<Rightarrow> if v \<noteq> JNull then Some v else None
                                          | None \<Rightarrow> None)
      | _ \<Rightarrow> None)"

definition extract_ids :: "json list \<Rightarrow> error + json list" where
  "extract_ids collection = py_set (List.map_filter item_id collection) []"

text \<open>
  \<^verbatim>\<open>
    for item in source_coll:
        if not isinstance(item, dict):
            continue
        val = item.get(fk_field)
        if val is None:
            null_count += 1
        else:
            fk_values.append(val)
  \<close>
\<close>

fun fk_values_loop :: "string \<Rightarrow> json list \<Rightarrow> json list \<times> nat \<Rightarrow> json list \<times> nat" where
  "fk_values_loop fk_field [] acc = acc"
| "fk_values_loop fk_field (item # rest) (fk_values, null_count) =
     fk_values_loop fk_field rest
       (case item of
          JDict d \<Rightarrow>
            (case map_of d fk_field of
               None \<Rightarrow> (fk_values, null_count + 1)
             | Some val \<Rightarrow>
                 if val = JNull then (fk_values, null_count + 1)
                 else (fk_values @ [val], null_count))
        | _ \<Rightarrow> (fk_values, null_count))"

datatype status = Check_Mark | Warning_Mark | Cross_Mark

record verification =
  fk_value_count :: nat
  nulls :: nat
  fk_set :: "json list"
  matched :: "json list"
  orphans :: "json list"
  match_pct :: rat
  mark :: status

text \<open>
  What one check prints: one of the three warnings that end the iteration with
  \<open>continue\<close>, or the statistics. \<open>match_pct\<close> is a Python float in the source; it is the
  exact quotient here.
\<close>

datatype outcome =
    No_Source_Data
  | No_Target_IDs
  | All_Values_NULL nat
  | Verified verification

definition check_fk :: "json list \<Rightarrow> json list \<Rightarrow> string \<Rightarrow> error + outcome" where
  "check_fk source_coll target_ids fk_field =
     (if source_coll = [] then Inr No_Source_Data
      else if target_ids = [] then Inr No_Target_IDs
      else
        let (fk_values, null_count) = fk_values_loop fk_field source_coll ([], 0)
        in if fk_values = [] then Inr (All_Values_NULL null_count)
           else
             (case py_set fk_values [] of
                Inl e \<Rightarrow> Inl e
              | Inr fks \<Rightarrow>
                  let target =
                        (if fk_field = ''Vendor_Id''
                         then remdups (map (\<lambda>x. JStr (py_str x)) target_ids)
                         else target_ids);
                      ms = filter (\<lambda>v. py_mem v target) fks;
                      os = filter (\<lambda>v. \<not> py_mem v target) fks;
                      pct = (if fks \<noteq> [] then of_nat (length ms) / of_nat (length fks) * 100
                             else 0)
                  in Inr (Verified
                       \<lparr> fk_value_count = length fk_values, nulls = null_count,
                         fk_set = fks, matched = ms, orphans = os, match_pct = pct,
                         mark = (if pct = 100 then Check_Mark
                                 else if pct \<ge> 50 then Warning_Mark
                                 else Cross_Mark) \<rparr>)))"

text \<open>
  \<open>all_ids = {name: extract_ids(coll) for name, coll in collections.items()}\<close>; a
  \<open>TypeError\<close> in one collection ends the run.
\<close>

fun all_ids_build ::
  "(string \<times> json list) list \<Rightarrow> error + (string \<times> json list) list" where
  "all_ids_build [] = Inr []"
| "all_ids_build ((name, coll) # rest) =
     (case extract_ids coll of
        Inl e \<Rightarrow> Inl e
      | Inr ids \<Rightarrow>
          (case all_ids_build rest of
             Inl e \<Rightarrow> Inl e
           | Inr m \<Rightarrow> Inr ((name, ids) # m)))"

definition fk_checks :: "(string \<times> string \<times> string) list" where
  "fk_checks =
     [(''Asset'', ''Building_Id'', ''Buildings''),
      (''Asset'', ''Room_Id'', ''Rooms''),
      (''Asset'', ''SRB_Id'', ''SRB_Details''),
      (''Rooms'', ''Building_id'', ''Buildings''),
      (''Instance'', ''Asset_Id'', ''Asset''),
      (''Asset_Condition'', ''asset_id'', ''Asset''),
      (''Asset_Coverage_History'', ''Asset_Id'', ''Asset''),
      (''Asset_Specifications'', ''Asset_Id'', ''Asset''),
      (''SRB_Details'', ''Vendor_Id'', ''Vendor''),
      (''Purchase_Order_Details'', ''Vendor_Id'', ''Vendor'')]"

text \<open>
  One iteration of the loop over \<open>fk_checks\<close>:
  \<open>source_coll = collections.get(source_name, [])\<close> and
  \<open>target_ids = all_ids.get(target_name, set())\<close>.
\<close>

definition verify_triple ::
  "(string \<times> json list) list \<Rightarrow> (string \<times> json list) list \<Rightarrow> string \<times> string \<times> string
     \<Rightarrow> error + outcome" where
  "verify_triple collections all_ids triple =
     (case triple of
        (source_name, fk_field, target_name) \<Rightarrow>
          check_fk
            (case map_of collections source_name of None \<Rightarrow> [] | Some c \<Rightarrow> c)
            (case map_of all_ids target_name of None \<Rightarrow> [] | Some s \<Rightarrow> s)
            fk_field)"

fun checks_loop ::
  "(string \<times> json list) list \<Rightarrow> (string \<times> json list) list \<Rightarrow> (string \<times> string \<times> string) list
     \<Rightarrow> error + outcome list" where
  "checks_loop collections all_ids [] = Inr []"
| "checks_loop collections all_ids (triple # rest) =
     (case verify_triple collections all_ids triple of
        Inl e \<Rightarrow> Inl e
      | Inr out \<Rightarrow>
          (case checks_loop collections all_ids rest of
             Inl e \<Rightarrow> Inl e
           | Inr outs \<Rightarrow> Inr (out # outs)))"

definition verify_all ::
  "(string \<times> json list) list \<Rightarrow> (string \<times> string \<times> string) list \<Rightarrow> error + outcome list" where
  "verify_all collections checks =
     (case all_ids_build collections of
        Inl e \<Rightarrow> Inl e
      | Inr all_ids \<Rightarrow> checks_loop collections all_ids checks)"

section \<open>Predicates of the properties\<close>

text \<open>
  The consistency of the two evidence fields of a candidate of \<open>find_candidate_fks\<close>:
  \<open>confirmed_by_api\<close> holds exactly for the two path tags, and the tag is one of three.
\<close>

definition source_tag_ok :: "fk_candidate \<Rightarrow> bool" where
  "source_tag_ok c =
     ((confirmed_by_api c \<longleftrightarrow> (cand_source c = ''api_path'' \<or> cand_source c = ''api_path_only''))
      \<and> (cand_source c = ''field_name'' \<or> cand_source c = ''api_path''
           \<or> cand_source c = ''api_path_only''))"

text \<open>
  The records of a source collection that the verifier counts: those that are mappings. A record
  carries no reference in a field when it is no mapping, lacks the field, or holds null there.
\<close>

definition is_mapping :: "json \<Rightarrow> bool" where
  "is_mapping item = (case item of JDict d \<Rightarrow> True | _ \<Rightarrow> False)"

definition field_is_null :: "string \<Rightarrow> json \<Rightarrow> bool" where
  "field_is_null fk_field item =
     (case item of
        JDict d \<Rightarrow> (case map_of d fk_field of None \<Rightarrow> True | Some val \<Rightarrow> val = JNull)
      | _ \<Rightarrow> True)"

section \<open>The path relationship extractor\<close>

text \<open>
  C6: the only key \<open>/Asset/{id}/End_User:get\<close> gives exactly the mapping from \<open>Asset\<close> to
  the set with \<open>End_User\<close>; the only key \<open>/Asset/End_User:get\<close>, which has no parameter
  segment, gives the empty mapping.
\<close>

theorem path_relationships_examples:
  "path_relationships [''/Asset/{id}/End_User:get''] = [(''Asset'', [''End_User''])]
   \<and> path_relationships [''/Asset/End_User:get''] = []"
  by (simp add: path_relationships_def match_path_def)

section \<open>The schema candidate finder\<close>

text \<open>
  C5: for the schemas \<open>Asset\<close>, with the one property \<open>Building_Id\<close> of type integer, and
  \<open>Buildings\<close>, with no property, and no path relationship, \<open>find_candidate_fks\<close> emits
  one candidate, from \<open>Asset\<close>, of field \<open>Building_Id\<close>, whose target is \<open>Buildings\<close>.
\<close>

theorem find_candidate_fks_building_id:
  "find_candidate_fks
     [(''Asset'', Some [(''Building_Id'', Some ''integer'')]), (''Buildings'', Some [])] []
   = [\<lparr> cand_from = ''Asset'', cand_field = ''Building_Id'', to_guess = Some ''Buildings'',
        cand_type = Some ''integer'', confirmed_by_api = False, cand_source = ''field_name'' \<rparr>]"
  by code_simp

lemma named_candidate_tag: "source_tag_ok (named_candidate nts api sname prop pdef)"
  by (simp add: named_candidate_def source_tag_ok_def Let_def)

lemma path_only_candidate_tag: "source_tag_ok (path_only_candidate sname related)"
  by (simp add: path_only_candidate_def source_tag_ok_def)

lemma props_loop_tag:
  "list_all source_tag_ok results \<Longrightarrow>
   list_all source_tag_ok (props_loop nts api sname props results)"
  by (induction nts api sname props results rule: props_loop.induct)
     (simp_all add: named_candidate_tag)

lemma relations_loop_tag:
  "list_all source_tag_ok results \<Longrightarrow>
   list_all source_tag_ok (relations_loop sname related results)"
  by (induction sname related results rule: relations_loop.induct)
     (simp_all add: path_only_candidate_tag)

lemma schemas_loop_tag:
  "list_all source_tag_ok results \<Longrightarrow>
   list_all source_tag_ok (schemas_loop nts api schemas results)"
proof (induction nts api schemas results rule: schemas_loop.induct)
  case (1 nts api results)
  then show ?case by simp
next
  case (2 nts api sname sdef rest results)
  let ?props = "case sdef of None \<Rightarrow> [] | Some ps \<Rightarrow> ps"
  let ?r1 = "props_loop nts api sname ?props results"
  let ?r2 = "case map_of api sname of None \<Rightarrow> ?r1
             | Some related \<Rightarrow> relations_loop sname related ?r1"
  have r1: "list_all source_tag_ok ?r1"
    using "2.prems" by (rule props_loop_tag)
  have r2: "list_all source_tag_ok ?r2"
    using r1 by (cases "map_of api sname") (simp_all add: relations_loop_tag)
  have "list_all source_tag_ok (schemas_loop nts api rest ?r2)"
    using "2.IH" [OF refl refl refl r2] .
  then show ?case by (simp add: Let_def)
qed

text \<open>
  C9: every candidate that \<open>find_candidate_fks\<close> emits has \<open>confirmed_by_api\<close> true
  exactly when its source tag is \<open>api_path\<close> or \<open>api_path_only\<close>, its tag is one of
  \<open>field_name\<close>, \<open>api_path\<close>, \<open>api_path_only\<close>, and a \<open>field_name\<close> candidate is never
  marked as confirmed by the API.
\<close>

theorem find_candidate_fks_source_tag:
  "\<forall>c \<in> set (find_candidate_fks schemas api_relationships).
     (confirmed_by_api c \<longleftrightarrow> (cand_source c = ''api_path'' \<or> cand_source c = ''api_path_only''))
     \<and> (cand_source c = ''field_name'' \<or> cand_source c = ''api_path''
           \<or> cand_source c = ''api_path_only'')
     \<and> (cand_source c = ''field_name'' \<longrightarrow> \<not> confirmed_by_api c)"
proof -
  have "list_all source_tag_ok (find_candidate_fks schemas api_relationships)"
    unfolding find_candidate_fks_def by (rule schemas_loop_tag) simp
  then show ?thesis
    unfolding list_all_iff source_tag_ok_def by fastforce
qed

theorem find_candidate_fks_source_tag_witness:
  "find_candidate_fks
     [(''Asset'', Some [(''Building_Id'', Some ''integer''), (''Grid_Ref'', None)]),
      (''Buildings'', Some [])]
     [(''Asset'', [''Building'', ''End_User''])]
   = [\<lparr> cand_from = ''Asset'', cand_field = ''Building_Id'', to_guess = Some ''Building'',
        cand_type = Some ''integer'', confirmed_by_api = True, cand_source = ''api_path'' \<rparr>,
      \<lparr> cand_from = ''Asset'', cand_field = ''Grid_Ref'', to_guess = None,
        cand_type = None, confirmed_by_api = False, cand_source = ''field_name'' \<rparr>,
      \<lparr> cand_from = ''Asset'', cand_field = ''<relation to End_User>'',
        to_guess = Some ''End_User'', cand_type = Some ''relation'',
        confirmed_by_api = True, cand_source = ''api_path_only'' \<rparr>]
   \<and> \<not> confirmed_by_api
         \<lparr> cand_from = ''Asset'', cand_field = ''Grid_Ref'', to_guess = None,
           cand_type = None, confirmed_by_api = False, cand_source = ''field_name'' \<rparr>"
proof -
  let ?schemas = "[(''Asset'', Some [(''Building_Id'', Some ''integer''), (''Grid_Ref'', None)]),
                   (''Buildings'', Some [])]"
  let ?api = "[(''Asset'', [''Building'', ''End_User''])]"
  let ?c = "\<lparr> cand_from = ''Asset'', cand_field = ''Grid_Ref'', to_guess = None,
              cand_type = None, confirmed_by_api = False, cand_source = ''field_name'' \<rparr>"
  have run: "find_candidate_fks ?schemas ?api
   = [\<lparr> cand_from = ''Asset'', cand_field = ''Building_Id'', to_guess = Some ''Building'',
        cand_type = Some ''integer'', confirmed_by_api = True, cand_source = ''api_path'' \<rparr>,
      ?c,
      \<lparr> cand_from = ''Asset'', cand_field = ''<relation to End_User>'',
        to_guess = Some ''End_User'', cand_type = Some ''relation'',
        confirmed_by_api = True, cand_source = ''api_path_only'' \<rparr>]"
    by code_simp
  have mem: "?c \<in> set (find_candidate_fks ?schemas ?api)"
    unfolding run by simp
  have tag: "cand_source ?c = ''field_name''"
    by simp
  from find_candidate_fks_source_tag [of ?schemas ?api] mem tag
  have "\<not> confirmed_by_api ?c"
    by blast
  with run show ?thesis
    by blast
qed

section \<open>The value-overlap finder\<close>

text \<open>
  C1: on the collections \<open>Asset = [{id: 1, Building_Id: 10}]\<close> and
  \<open>Buildings = [{id: 10}]\<close>, in this order, \<open>find_fk_candidates\<close> returns no candidate:
  the loop over the fields runs once, after the loop over the collections, on the sample
  of \<open>Buildings\<close>, whose only field is its identifier.
\<close>

theorem find_fk_candidates_asset_buildings:
  "find_fk_candidates
     [(''Asset'', [JDict [(''id'', JInt 1), (''Building_Id'', JInt 10)]]),
      (''Buildings'', [JDict [(''id'', JInt 10)]])] = Inr []"
  by code_simp

text \<open>With \<open>Asset\<close> as the last collection, the candidate is found.\<close>

lemma find_fk_candidates_buildings_asset:
  "find_fk_candidates
     [(''Buildings'', [JDict [(''id'', JInt 10)]]),
      (''Asset'', [JDict [(''id'', JInt 1), (''Building_Id'', JInt 10)]])]
   = Inr [\<lparr> from_collection = ''Asset'', field = ''Building_Id'',
            to_collection = ''Buildings'', matches = 1, sample_matches = [''10''],
            name_match = True \<rparr>]"
  by code_simp

section \<open>The stringifier\<close>

subsection \<open>The characters of \<open>str(n)\<close>\<close>

lemma digit_char_in: "digit_char d \<in> set ''0123456789''"
proof -
  have "d mod 10 < length ''0123456789''" by simp
  then show ?thesis unfolding digit_char_def by (rule nth_mem)
qed


lemma str_nat_chars: "set (str_nat n) \<subseteq> set ''0123456789''"
proof (induction n rule: str_nat.induct)
  case (1 n)
  show ?case
  proof (cases "n < 10")
    case True
    have "str_nat n = [digit_char n]" using True by (subst str_nat.simps) simp
    then show ?thesis using digit_char_in [of n] by simp
  next
    case False
    have "str_nat n = str_nat (n div 10) @ [digit_char (n mod 10)]"
      using False by (subst str_nat.simps) simp
    then show ?thesis
      using "1.IH" [OF False] digit_char_in [of "n mod 10"] by simp
  qed
qed


lemma digits_subset: "set ''0123456789'' \<subseteq> set ''-0123456789''"
  by (rule set_subset_Cons)

lemma str_int_chars: "set (str_int i) \<subseteq> set ''-0123456789''"
proof (cases "i < 0")
  case True
  have "set (str_nat (nat (- i))) \<subseteq> set ''-0123456789''"
    using str_nat_chars digits_subset by (rule subset_trans)
  moreover have "str_int i = CHR ''-'' # str_nat (nat (- i))"
    using True by (simp add: str_int_def)
  ultimately show ?thesis by simp
next
  case False
  have "set (str_nat (nat i)) \<subseteq> set ''-0123456789''"
    using str_nat_chars digits_subset by (rule subset_trans)
  moreover have "str_int i = str_nat (nat i)"
    using False by (simp add: str_int_def)
  ultimately show ?thesis by simp
qed

lemma str_int_neq:
  assumes "c \<in> set s" and "c \<notin> set ''-0123456789''"
  shows "str_int i \<noteq> s"
proof
  assume "str_int i = s"
  then have "c \<in> set (str_int i)" using assms(1) by simp
  then have "c \<in> set ''-0123456789''" using str_int_chars [of i] by (rule subsetD [rotated])
  then show False using assms(2) by (rule notE [rotated])
qed

lemma str_int_not_True: "str_int i \<noteq> ''True''"
  by (rule str_int_neq [of "CHR ''T''"]) simp_all

lemma str_int_not_False: "str_int i \<noteq> ''False''"
  by (rule str_int_neq [of "CHR ''F''"]) simp_all

lemma str_int_not_sentinel: "str_int i \<noteq> ''<null>''"
  by (rule str_int_neq [of "CHR ''n''"]) simp_all

lemma str_int_1: "str_int 1 = ''1''"
  by (simp add: str_int_def str_nat.simps digit_char_def)

lemma str_int_0: "str_int 0 = ''0''"
  by (simp add: str_int_def str_nat.simps digit_char_def)

lemma py_repr_not_sentinel: "py_repr v \<noteq> ''<null>''"
proof (cases v)
  case (JInt i)
  then show ?thesis using str_int_not_sentinel [of i] by simp
next
  case (JStr s)
  then show ?thesis by (simp add: repr_str_def repr_quote_def Let_def)
qed simp_all

lemma py_str_sentinel: "py_str x = ''<null>'' \<longleftrightarrow> x = JStr ''<null>''"
  using py_repr_not_sentinel [of x] by (cases x) (simp_all add: py_str_def)

subsection \<open>The sentinel of \<open>None\<close>\<close>

text \<open>
  C4, as stated, fails: the string \<open><null>\<close> is not \<open>None\<close>, and \<open>stringify\<close> returns it
  unchanged, which is the sentinel that \<open>stringify(None)\<close> returns.
\<close>

theorem stringify_sentinel_counterexample:
  "JStr ''<null>'' \<noteq> JNull \<and> stringify (JStr ''<null>'') = stringify JNull"
  by (simp add: stringify_def py_str_def)

text \<open>
  C4, amended: \<open>stringify(v)\<close> equals \<open>stringify(None)\<close> exactly when \<open>v\<close> is \<open>None\<close>,
  the string \<open><null>\<close>, or a dict whose first identifier-like key with a value other
  than \<open>None\<close> holds the string \<open><null>\<close>. So the sentinel differs from the
  stringification of every boolean, every integer, every list, every other string and
  every other dict.
\<close>

theorem stringify_sentinel:
  "stringify v = stringify JNull \<longleftrightarrow>
     v = JNull \<or> v = JStr ''<null>''
     \<or> (\<exists>d. v = JDict d \<and> first_id_value id_like_keys d = Some (JStr ''<null>''))"
proof (cases v)
  case JNull
  then show ?thesis by simp
next
  case (JBool b)
  then show ?thesis by (simp add: stringify_def py_str_sentinel)
next
  case (JInt i)
  then show ?thesis by (simp add: stringify_def py_str_sentinel)
next
  case (JStr s)
  then show ?thesis by (simp add: stringify_def py_str_sentinel)
next
  case (JList xs)
  then show ?thesis by (simp add: stringify_def)
next
  case (JDict d)
  show ?thesis
  proof (cases "first_id_value id_like_keys d")
    case None
    then show ?thesis using JDict by (simp add: stringify_def)
  next
    case (Some x)
    then show ?thesis using JDict by (simp add: stringify_def py_str_sentinel)
  qed
qed

subsection \<open>Booleans and integers\<close>

text \<open>
  C10: \<open>stringify\<close> maps \<open>True\<close> to \<open>True\<close> and \<open>False\<close> to \<open>False\<close>, and \<open>1\<close> and
  \<open>0\<close> to \<open>1\<close> and \<open>0\<close>: no boolean has the stringification of an integer, nor that
  of the strings \<open>1\<close> and \<open>0\<close>, while an integer and the string of its decimal form have
  the same one.
\<close>

theorem stringify_bool_int:
  "stringify (JBool True) = ''True'' \<and> stringify (JBool False) = ''False''
   \<and> stringify (JInt 1) = ''1'' \<and> stringify (JInt 0) = ''0''
   \<and> (\<forall>b i. stringify (JBool b) \<noteq> stringify (JInt i))
   \<and> (\<forall>b. stringify (JBool b) \<noteq> stringify (JStr ''1'')
          \<and> stringify (JBool b) \<noteq> stringify (JStr ''0''))
   \<and> (\<forall>i. stringify (JInt i) = stringify (JStr (str_int i)))"
proof -
  have t: "''True'' \<noteq> str_int i" for i
    using str_int_not_True [of i] by (rule not_sym)
  have f: "''False'' \<noteq> str_int i" for i
    using str_int_not_False [of i] by (rule not_sym)
  show ?thesis
    using t f by (simp add: stringify_def py_str_def str_int_1 str_int_0)
qed

section \<open>The verifier\<close>

lemma fk_values_loop_all_null:
  "list_all (field_is_null fk_field) items \<Longrightarrow>
   fk_values_loop fk_field items (fk_values, null_count)
     = (fk_values, null_count + length (filter is_mapping items))"
proof (induction items arbitrary: null_count)
  case Nil
  then show ?case by simp
next
  case (Cons item rest)
  then have rest: "list_all (field_is_null fk_field) rest"
    and item: "field_is_null fk_field item"
    by simp_all
  show ?case
  proof (cases item)
    case (JDict d)
    then have "fk_values_loop fk_field (item # rest) (fk_values, null_count)
        = fk_values_loop fk_field rest (fk_values, null_count + 1)"
      using item by (auto simp: field_is_null_def split: option.splits)
    then show ?thesis
      using Cons.IH [OF rest, of "null_count + 1"] JDict by (simp add: is_mapping_def)
  qed (use Cons.IH [OF rest, of null_count] in \<open>simp_all add: is_mapping_def\<close>)
qed

text \<open>
  C8: the verifier has three distinct outcomes that say a relationship cannot be verified, none
  of which carries a match percentage: the source collection is empty (no source data); the
  source collection is not empty and the target has no identifiers (no target ids); both are
  not empty and every record of the source holds null in the field or lacks it (all values
  null, with the count of the records that are mappings). In each of the three cases the
  outcome is not a verification.
\<close>

theorem check_fk_cannot_verify:
  "(source_coll = [] \<longrightarrow> check_fk source_coll target_ids fk_field = Inr No_Source_Data)
   \<and> (source_coll \<noteq> [] \<and> target_ids = [] \<longrightarrow>
        check_fk source_coll target_ids fk_field = Inr No_Target_IDs)
   \<and> (source_coll \<noteq> [] \<and> target_ids \<noteq> [] \<and> list_all (field_is_null fk_field) source_coll \<longrightarrow>
        check_fk source_coll target_ids fk_field
          = Inr (All_Values_NULL (length (filter is_mapping source_coll))))
   \<and> (source_coll = [] \<or> target_ids = [] \<or> list_all (field_is_null fk_field) source_coll \<longrightarrow>
        (\<forall>v. check_fk source_coll target_ids fk_field \<noteq> Inr (Verified v)))"
proof -
  have a: "check_fk source_coll target_ids fk_field = Inr No_Source_Data"
    if "source_coll = []"
    using that by (simp add: check_fk_def)
  have b: "check_fk source_coll target_ids fk_field = Inr No_Target_IDs"
    if "source_coll \<noteq> []" "target_ids = []"
    using that by (simp add: check_fk_def)
  have c: "check_fk source_coll target_ids fk_field
      = Inr (All_Values_NULL (length (filter is_mapping source_coll)))"
    if "source_coll \<noteq> []" "target_ids \<noteq> []" "list_all (field_is_null fk_field) source_coll"
    using that fk_values_loop_all_null [OF that(3), of "[]" 0]
    by (simp add: check_fk_def)
  have d: "check_fk source_coll target_ids fk_field \<noteq> Inr (Verified v)"
    if "source_coll = [] \<or> target_ids = [] \<or> list_all (field_is_null fk_field) source_coll"
    for v
  proof (cases "source_coll = []")
    case True
    then show ?thesis using a by simp
  next
    case False
    note src = this
    show ?thesis
    proof (cases "target_ids = []")
      case True
      then show ?thesis using b [OF src] by simp
    next
      case False
      then have "list_all (field_is_null fk_field) source_coll" using that src by simp
      then show ?thesis using c [OF src False] by simp
    qed
  qed
  show ?thesis using a b c d by blast
qed

theorem check_fk_cannot_verify_witness:
  "check_fk [] [JInt 10] ''Building_Id'' = Inr No_Source_Data
   \<and> check_fk [JDict [(''id'', JInt 1), (''Building_Id'', JInt 10)]] [] ''Building_Id''
       = Inr No_Target_IDs
   \<and> check_fk [JDict [(''id'', JInt 1), (''Building_Id'', JNull)], JInt 7, JDict [(''id'', JInt 2)]]
        [JInt 10] ''Building_Id''
       = Inr (All_Values_NULL 2)"
proof -
  let ?one = "[JDict [(''id'', JInt 1), (''Building_Id'', JInt 10)]]"
  let ?nulls = "[JDict [(''id'', JInt 1), (''Building_Id'', JNull)], JInt 7, JDict [(''id'', JInt 2)]]"
  have n: "list_all (field_is_null ''Building_Id'') ?nulls"
    by (simp add: field_is_null_def)
  have m: "length (filter is_mapping ?nulls) = 2"
    by (simp add: is_mapping_def)
  have "check_fk [] [JInt 10] ''Building_Id'' = Inr No_Source_Data"
    using check_fk_cannot_verify [of "[]" "[JInt 10]" "''Building_Id''"] by simp
  moreover have "check_fk ?one [] ''Building_Id'' = Inr No_Target_IDs"
    using check_fk_cannot_verify [of ?one "[]" "''Building_Id''"] by simp
  moreover have "check_fk ?nulls [JInt 10] ''Building_Id'' = Inr (All_Values_NULL 2)"
    using check_fk_cannot_verify [of ?nulls "[JInt 10]" "''Building_Id''"] n m by simp
  ultimately show ?thesis by simp
qed

end
